theory Spec2Isabelle
  imports Complex_Main "HOL-Library.AList"
begin

section \<open>The Rocchio classifier of RocchioClassifier.py\<close>

text \<open>
  The module is embedded function by function. Python numbers are modelled as exact
  reals (and counts, indices and lengths as naturals), so the theorems below are about
  the arithmetic the code writes down, not about the rounding of IEEE doubles.
  Every exception the code can raise is a value: \<open>math.log\<close> and \<open>math.sqrt\<close>
  raise \<open>ValueError\<close> outside their domain, \<open>/\<close> raises
  \<open>ZeroDivisionError\<close>, a subscript on a missing key raises \<open>KeyError\<close>.
\<close>

subsection \<open>Exceptions and the arithmetic of the math module\<close>

datatype error = ValueError | ZeroDivisionError | KeyError

definition bind_res :: "error + 'a \<Rightarrow> ('a \<Rightarrow> error + 'b) \<Rightarrow> error + 'b" where
  "bind_res r f = (case r of Inl e \<Rightarrow> Inl e | Inr x \<Rightarrow> f x)"

text \<open>A loop whose body may raise: the first exception ends it.\<close>

fun foldM :: "('s \<Rightarrow> 'a \<Rightarrow> error + 's) \<Rightarrow> 's \<Rightarrow> 'a list \<Rightarrow> error + 's" where
  "foldM f s [] = Inr s"
| "foldM f s (x # xs) = bind_res (f s x) (\<lambda>s'. foldM f s' xs)"

text \<open>A generator expression whose element may raise.\<close>

fun mapM :: "('a \<Rightarrow> error + 'b) \<Rightarrow> 'a list \<Rightarrow> error + 'b list" where
  "mapM f [] = Inr []"
| "mapM f (x # xs) = bind_res (f x) (\<lambda>y. bind_res (mapM f xs) (\<lambda>ys. Inr (y # ys)))"

definition py_log10 :: "real \<Rightarrow> error + real" where
  \<comment> \<open>\<open>math.log(x, 10)\<close>\<close>
  "py_log10 x = (if x \<le> 0 then Inl ValueError else Inr (log 10 x))"

definition py_log :: "real \<Rightarrow> error + real" where
  \<comment> \<open>\<open>math.log(x)\<close>, the natural logarithm\<close>
  "py_log x = (if x \<le> 0 then Inl ValueError else Inr (ln x))"

definition py_sqrt :: "real \<Rightarrow> error + real" where
  "py_sqrt x = (if x < 0 then Inl ValueError else Inr (sqrt x))"

definition py_div :: "real \<Rightarrow> real \<Rightarrow> error + real" where
  \<comment> \<open>true division (\<open>from __future__ import division\<close>)\<close>
  "py_div a b = (if b = 0 then Inl ZeroDivisionError else Inr (a / b))"

subsection \<open>Dictionaries\<close>

text \<open>
  A dict is an association list in iteration order; \<open>AList.update\<close> is the
  assignment \<open>d[k] = v\<close> (it replaces the entry of \<open>k\<close> in place, or appends one),
  so every dict the code builds has distinct keys.
\<close>

type_synonym ('k, 'v) dict = "('k \<times> 'v) list"

definition keys :: "('k, 'v) dict \<Rightarrow> 'k list" where
  "keys d = map fst d"

definition wf_dict :: "('k, 'v) dict \<Rightarrow> bool" where
  "wf_dict d = distinct (keys d)"

definition getitem :: "('k, 'v) dict \<Rightarrow> 'k \<Rightarrow> error + 'v" where
  \<comment> \<open>\<open>d[k]\<close>\<close>
  "getitem d k = (case map_of d k of None \<Rightarrow> Inl KeyError | Some v \<Rightarrow> Inr v)"

definition get_default :: "('k, 'v) dict \<Rightarrow> 'k \<Rightarrow> 'v \<Rightarrow> 'v" where
  \<comment> \<open>\<open>d.get(k, default)\<close>\<close>
  "get_default d k dflt = (case map_of d k of None \<Rightarrow> dflt | Some v \<Rightarrow> v)"

definition dict_of :: "('k \<times> 'v) list \<Rightarrow> ('k, 'v) dict" where
  \<comment> \<open>\<open>dict(pairs)\<close>\<close>
  "dict_of pairs = foldl (\<lambda>d (k, v). AList.update k v d) [] pairs"

subsection \<open>Configuration: the three class attributes\<close>

record params =
  weight_bigrams :: real
  weight_trigrams :: real
  threshold :: real

definition EPSILON :: real where
  "EPSILON = 1 / 1000000"

definition default_params :: params where
  "default_params =
     \<lparr>weight_bigrams = 20318 / 10000, weight_trigrams = 44337 / 10000,
      threshold = 19442 / 10000\<rparr>"

definition set_params :: "real \<Rightarrow> real \<Rightarrow> real \<Rightarrow> params \<Rightarrow> params" where
  "set_params wb wt th cls =
     cls\<lparr>weight_bigrams := wb, weight_trigrams := wt, threshold := th\<rparr>"

definition get_params :: "params \<Rightarrow> real list" where
  "get_params cls = [weight_bigrams cls, weight_trigrams cls, threshold cls]"

definition get_param_names :: "string list" where
  "get_param_names = [''weight_bigrams'', ''weight_trigrams'', ''threshold'']"

definition getattr :: "params \<Rightarrow> string \<Rightarrow> real option" where
  \<comment> \<open>attribute lookup by name on the class: \<open>getattr(RocchioClassifier, name)\<close>\<close>
  "getattr cls name =
     (if name = ''weight_bigrams'' then Some (weight_bigrams cls)
      else if name = ''weight_trigrams'' then Some (weight_trigrams cls)
      else if name = ''threshold'' then Some (threshold cls)
      else None)"

definition get_weights :: "params \<Rightarrow> error + (nat, real) dict" where
  "get_weights cls =
     (let weights = [(1, 1), (2, weight_bigrams cls), (3, weight_trigrams cls)];
          total = sum_list (map snd weights)
      in bind_res (mapM (\<lambda>(n, w). bind_res (py_div w total) (\<lambda>q. Inr (n, q))) weights)
           (\<lambda>pairs. Inr (dict_of pairs)))"

subsection \<open>The tf-idf engine\<close>

definition build_inv_index :: "'w list list \<Rightarrow> ('w, (nat, nat) dict) dict" where
  "build_inv_index documents =
     foldl (\<lambda>inv_index (i, doc).
              foldl (\<lambda>inv_index word.
                       if word \<notin> set (keys inv_index)
                       then AList.update word [] inv_index else inv_index)
                inv_index doc)
       [] (enumerate 0 documents)"

definition tfidf_entry ::
  "real \<Rightarrow> 'w \<Rightarrow> ('w, (nat, real) dict) dict \<Rightarrow> nat \<times> nat
     \<Rightarrow> error + ('w, (nat, real) dict) dict" where
  \<comment> \<open>the body of the loop over \<open>word_doc_counts.items()\<close>\<close>
  "tfidf_entry idf word tfidf = (\<lambda>(doc_idx, word_count).
     let tfidf = (if word \<notin> set (keys tfidf) then AList.update word [] tfidf else tfidf)
     in bind_res (py_log10 (real word_count)) (\<lambda>l.
          let tf = 1 + l
          in bind_res (getitem tfidf word) (\<lambda>row.
               Inr (AList.update word (AList.update doc_idx (tf * idf) row) tfidf))))"

definition tfidf_word ::
  "real \<Rightarrow> ('w, (nat, nat) dict) dict \<Rightarrow> ('w, (nat, real) dict) dict \<Rightarrow> 'w
     \<Rightarrow> error + ('w, (nat, real) dict) dict" where
  \<comment> \<open>the body of the loop over the words of \<open>inv_index\<close>\<close>
  "tfidf_word logN inv_index tfidf word =
     bind_res (getitem inv_index word) (\<lambda>word_doc_counts.
       bind_res (py_log10 (real (length word_doc_counts))) (\<lambda>l.
         let idf = logN - l
         in foldM (tfidf_entry idf word) tfidf word_doc_counts))"

definition l2norm2 :: "('w, (nat, real) dict) dict \<Rightarrow> (nat, real) dict" where
  "l2norm2 tfidf =
     foldl (\<lambda>tfidf_l2norm2 (word, doc_indexes).
              foldl (\<lambda>tfidf_l2norm2 (doc_idx, val).
                       AList.update doc_idx (get_default tfidf_l2norm2 doc_idx 0 + val ^ 2)
                         tfidf_l2norm2)
                tfidf_l2norm2 doc_indexes)
       [] tfidf"

definition compute_tfidf ::
  "'w list list \<Rightarrow> error + (('w, (nat, real) dict) dict \<times> (nat, real) dict)" where
  "compute_tfidf documents =
     (let inv_index = build_inv_index documents
      in bind_res (py_log10 (real (length documents))) (\<lambda>logN.
           bind_res (foldM (tfidf_word logN inv_index) [] (keys inv_index)) (\<lambda>tfidf.
             bind_res (mapM (\<lambda>(doc_idx, val). bind_res (py_sqrt val) (\<lambda>r. Inr (doc_idx, r)))
                        (l2norm2 tfidf))
               (\<lambda>pairs. Inr (tfidf, dict_of pairs)))))"

subsection \<open>Centroids, query vectors and the distance\<close>

text \<open>
  \<open>get_centroid\<close> returns at its first \<open>return\<close>; the statements after it, which
  would divide by the per-document norms, are never executed and are not modelled.
  \<open>sum(tfidf[word])\<close> iterates the dict \<open>tfidf[word]\<close>, that is, its keys: it adds up
  document indices.
\<close>

definition average_rows :: "('w, (nat, real) dict) dict \<Rightarrow> nat \<Rightarrow> error + ('w, real) dict" where
  \<comment> \<open>the returned expression \<open>dict((word, sum(tfidf[word])/N) for word in tfidf)\<close>\<close>
  "average_rows tfidf N =
     bind_res (mapM (\<lambda>word. bind_res (getitem tfidf word) (\<lambda>row.
                        bind_res (py_div (real (sum_list (keys row))) (real N))
                          (\<lambda>q. Inr (word, q))))
                 (keys tfidf))
       (\<lambda>pairs. Inr (dict_of pairs))"

definition get_centroid :: "'w set \<Rightarrow> 'w list list \<Rightarrow> error + ('w, real) dict" where
  "get_centroid vocabulary documents =
     bind_res (compute_tfidf documents) (\<lambda>(tfidf, tfidf_l2norm).
       let N = length documents
       in average_rows tfidf N)"

definition count_ngrams :: "'w list \<Rightarrow> ('w, nat) dict" where
  \<comment> \<open>the counting loop of \<open>get_query_vec\<close>\<close>
  "count_ngrams ngrams =
     foldl (\<lambda>query_vec word. AList.update word (get_default query_vec word 0 + 1) query_vec)
       [] ngrams"

definition get_query_vec :: "'w list \<Rightarrow> error + ('w, real) dict" where
  "get_query_vec ngrams =
     (let query_vec = count_ngrams ngrams
      in bind_res (mapM (\<lambda>word. bind_res (getitem query_vec word) (\<lambda>c.
                           bind_res (py_log10 (real c)) (\<lambda>l. Inr (word, l + 1))))
                     (keys query_vec))
           (\<lambda>pairs. Inr (dict_of pairs)))"

definition get_distance :: "('w, real) dict \<Rightarrow> ('w, real) dict \<Rightarrow> error + real" where
  "get_distance centroid query_vec =
     (let centroid_vec = dict_of (map (\<lambda>word. (word, get_default centroid word 0))
                                   (keys query_vec))
      in bind_res (mapM (\<lambda>word. bind_res (getitem query_vec word) (\<lambda>q.
                           bind_res (getitem centroid_vec word) (\<lambda>c. Inr (q * c))))
                     (keys query_vec))
           (\<lambda>products. Inr (sum_list products)))"

subsection \<open>The tokenizer, a collaborator outside the module\<close>

text \<open>
  \<open>preprocessing.extract_words\<close> and \<open>preprocessing.get_ngrams\<close> belong to another
  module; the classifier takes them as given, and so does the model: every function that
  calls them receives them in a record.
\<close>

record 'g preprocessing =
  extract_words :: "string \<Rightarrow> string list"
  get_ngrams :: "nat \<Rightarrow> string list \<Rightarrow> 'g list"

text \<open>
  Modelled from the spec: \<open>preprocessing.get_ngrams\<close>, which is not among the sources.
  The spec gives its contract: the n-grams of order \<open>n\<close> are the contiguous, overlapping
  runs of \<open>n\<close> tokens, and there are none when the message has fewer than \<open>n\<close> words.
\<close>

definition ngrams_of :: "nat \<Rightarrow> string list \<Rightarrow> string list list" where
  "ngrams_of n words =
     (if length words < n then []
      else map (\<lambda>i. take n (drop i words)) [0..<length words - n + 1])"

text \<open>
  Modelled from the spec: \<open>preprocessing.extract_words\<close>, which is not among the sources.
  The spec fixes only that it maps a text to a possibly empty sequence of tokens; cutting
  the text at blanks stands in for it where a concrete tokenizer is needed.
\<close>

fun split_words :: "string \<Rightarrow> string \<Rightarrow> string list" where
  "split_words cur [] = (if cur = [] then [] else [cur])"
| "split_words cur (c # cs) =
     (if c = CHR '' '' then (if cur = [] then split_words [] cs else cur # split_words [] cs)
      else split_words (cur @ [c]) cs)"

definition blank_tokenizer :: "string list preprocessing" where
  "blank_tokenizer = \<lparr>extract_words = split_words [], get_ngrams = ngrams_of\<rparr>"

subsection \<open>The classifier: state, training, classification\<close>

text \<open>
  The five per-order dicts of an instance have the fixed keys 1, 2 and 3; they are
  functions of the order, read and written only there.
\<close>

record 'g classifier =
  pos_documents :: "nat \<Rightarrow> 'g list list"
  neg_documents :: "nat \<Rightarrow> 'g list list"
  vocab :: "nat \<Rightarrow> 'g set"
  pos_centroid :: "nat \<Rightarrow> ('g, real) dict"
  neg_centroid :: "nat \<Rightarrow> ('g, real) dict"

definition new_classifier :: "'g classifier" where
  \<comment> \<open>the assignments of \<open>__init__\<close> before it calls \<open>train\<close>\<close>
  "new_classifier =
     \<lparr>pos_documents = (\<lambda>n. []), neg_documents = (\<lambda>n. []), vocab = (\<lambda>n. {}),
      pos_centroid = (\<lambda>n. []), neg_centroid = (\<lambda>n. [])\<rparr>"





definition get_weighted_distance ::
  "(nat \<Rightarrow> ('g, real) dict) \<Rightarrow> (nat, real) dict \<Rightarrow> (nat \<Rightarrow> ('g, real) dict) \<Rightarrow> error + real"
  where
  \<comment> \<open>the local function of \<open>classify\<close>, with the variables it closes over as arguments\<close>
  "get_weighted_distance query_vecs weights centroid =
     bind_res (mapM (\<lambda>n. bind_res (get_distance (centroid n) (query_vecs n)) (\<lambda>d.
                        bind_res (getitem weights n) (\<lambda>w. Inr (d * w))))
                 [1, 2, 3])
       (\<lambda>terms. Inr (sum_list terms))"

definition classify :: "'g preprocessing \<Rightarrow> params \<Rightarrow> 'g classifier \<Rightarrow> string
    \<Rightarrow> error + (bool \<times> real)" where
  "classify pp cls self message =
     (let words = extract_words pp message
      in if words = [] then Inr (False, 0)
         else
           let ngrams = (\<lambda>n. get_ngrams pp n words)
           in bind_res (get_query_vec (ngrams 1)) (\<lambda>q1.
              bind_res (get_query_vec (ngrams 2)) (\<lambda>q2.
              bind_res (get_query_vec (ngrams 3)) (\<lambda>q3.
                let query_vecs = (\<lambda>n. if n = 1 then q1 else if n = 2 then q2 else q3)
                in bind_res (get_weights cls) (\<lambda>weights.
                   bind_res (get_weighted_distance query_vecs weights (pos_centroid self))
                     (\<lambda>pos_distance.
                   bind_res (get_weighted_distance query_vecs weights (neg_centroid self))
                     (\<lambda>neg_distance.
                   bind_res (py_div (pos_distance + EPSILON) (neg_distance + EPSILON))
                     (\<lambda>diff.
                   bind_res (py_log diff) (\<lambda>score.
                     Inr (diff > threshold cls, score))))))))))"

subsection \<open>Predicates for the properties\<close>



section \<open>Properties\<close>

subsection \<open>Auxiliary facts\<close>

lemma bind_res_simps [simp]:
  "bind_res (Inl e) f = Inl e"
  "bind_res (Inr x) f = f x"
  by (simp_all add: bind_res_def)

lemma update_fresh: "k \<notin> fst ` set al \<Longrightarrow> AList.update k v al = al @ [(k, v)]"
  by (induction al) auto

lemma keys_simps [simp]:
  "keys [] = []"
  "keys (p # ps) = fst p # keys ps"
  "keys (xs @ ys) = keys xs @ keys ys"
  by (simp_all add: keys_def)

lemma keys_update: "set (keys (AList.update k v d)) = insert k (set (keys d))"
  by (simp add: keys_def dom_update)

lemma update_new_key: "k \<notin> set (keys d) \<Longrightarrow> AList.update k v d = d @ [(k, v)]"
  by (simp add: keys_def update_fresh)

text \<open>
  What \<open>build_inv_index\<close> returns: one entry for each distinct term of the documents,
  and every entry an empty dict, since the loop never stores a count.
\<close>

lemma add_word_rows:
  "snd ` set ix \<subseteq> {[]} \<Longrightarrow>
   snd ` set (foldl (\<lambda>inv_index word.
                       if word \<notin> set (keys inv_index)
                       then AList.update word [] inv_index else inv_index) ix doc) \<subseteq> {[]}"
proof (induction doc arbitrary: ix)
  case Nil
  then show ?case by simp
next
  case (Cons w doc)
  show ?case
  proof (cases "w \<in> set (keys ix)")
    case True
    then show ?thesis using Cons by simp
  next
    case False
    have "snd ` set (ix @ [(w, [])]) \<subseteq> {[]}"
      using Cons.prems by auto
    then show ?thesis using False Cons.IH by (simp add: update_new_key)
  qed
qed

lemma add_word_keys:
  "set (keys (foldl (\<lambda>inv_index word.
                       if word \<notin> set (keys inv_index)
                       then AList.update word [] inv_index else inv_index) ix doc))
   = set (keys ix) \<union> set doc"
proof (induction doc arbitrary: ix)
  case Nil
  then show ?case by simp
next
  case (Cons w doc)
  show ?case
    by (cases "w \<in> set (keys ix)") (auto simp: Cons.IH keys_update)
qed

lemma add_docs_rows:
  "snd ` set ix \<subseteq> {[]} \<Longrightarrow>
   snd ` set (foldl (\<lambda>inv_index (i, doc).
              foldl (\<lambda>inv_index word.
                       if word \<notin> set (keys inv_index)
                       then AList.update word [] inv_index else inv_index)
                inv_index doc) ix idocs) \<subseteq> {[]}"
proof (induction idocs arbitrary: ix)
  case Nil
  then show ?case by simp
next
  case (Cons p idocs)
  obtain i doc where p: "p = (i, doc)" by (cases p)
  show ?case using Cons.prems
    by (simp add: p) (intro Cons.IH add_word_rows)
qed

lemma add_docs_keys:
  "set (keys (foldl (\<lambda>inv_index (i, doc).
              foldl (\<lambda>inv_index word.
                       if word \<notin> set (keys inv_index)
                       then AList.update word [] inv_index else inv_index)
                inv_index doc) ix idocs))
   = set (keys ix) \<union> \<Union> (set ` snd ` set idocs)"
proof (induction idocs arbitrary: ix)
  case Nil
  then show ?case by simp
next
  case (Cons p idocs)
  obtain i doc where p: "p = (i, doc)" by (cases p)
  show ?case
    by (simp add: p Cons.IH add_word_keys Un_assoc)
qed

lemma build_inv_index_rows: "snd ` set (build_inv_index documents) \<subseteq> {[]}"
  unfolding build_inv_index_def by (rule add_docs_rows) simp

lemma build_inv_index_keys:
  "set (keys (build_inv_index documents)) = \<Union> (set ` set documents)"
proof -
  have "snd ` set (enumerate 0 documents) = set documents"
    by (metis map_snd_enumerate set_map)
  then show ?thesis
    unfolding build_inv_index_def by (simp add: add_docs_keys)
qed

text \<open>
  Hence the logarithm of the document frequency is taken at 0 as soon as there is a term:
  \<open>compute_tfidf\<close> and \<open>get_centroid\<close> return only for a non-empty list of
  empty documents, and raise otherwise.
\<close>

lemma compute_tfidf_cases:
  "compute_tfidf documents =
     (if documents \<noteq> [] \<and> (\<forall>doc \<in> set documents. doc = [])
      then Inr ([], []) else Inl ValueError)"
proof (cases "documents = []")
  case True
  then show ?thesis by (simp add: compute_tfidf_def py_log10_def)
next
  case ne: False
  then have logN: "py_log10 (real (length documents)) = Inr (log 10 (real (length documents)))"
    by (simp add: py_log10_def)
  show ?thesis
  proof (cases "build_inv_index documents")
    case Nil
    then have "\<Union> (set ` set documents) = {}"
      using build_inv_index_keys [of documents] by simp
    then have "\<forall>doc \<in> set documents. doc = []" by simp
    then show ?thesis using ne Nil logN
      by (simp add: compute_tfidf_def l2norm2_def dict_of_def)
  next
    case (Cons p ix)
    obtain w row where p: "p = (w, row)" by (cases p)
    have "row = []"
      using build_inv_index_rows [of documents] by (simp add: Cons p)
    moreover have "w \<in> set (keys (build_inv_index documents))"
      by (simp add: Cons p)
    then have "w \<in> \<Union> (set ` set documents)"
      by (simp only: build_inv_index_keys)
    then have "\<not> (\<forall>doc \<in> set documents. doc = [])" by fastforce
    ultimately show ?thesis using logN
      by (simp add: compute_tfidf_def Cons p tfidf_word_def getitem_def py_log10_def)
  qed
qed

lemma get_centroid_cases:
  "get_centroid vocabulary documents =
     (if documents \<noteq> [] \<and> (\<forall>doc \<in> set documents. doc = [])
      then Inr [] else Inl ValueError)"
  by (simp add: get_centroid_def compute_tfidf_cases average_rows_def dict_of_def)

text \<open>Generator expressions that cannot raise, and subscripts on keys that are present.\<close>

lemma mapM_Inr: "(\<And>x. x \<in> set xs \<Longrightarrow> f x = Inr (g x)) \<Longrightarrow> mapM f xs = Inr (map g xs)"
  by (induction xs) simp_all

lemma map_of_foldl_update:
  "map_of (foldl (\<lambda>d (k, v). AList.update k v d) acc (map (\<lambda>w. (w, h w)) ws)) w
     = (if w \<in> set ws then Some (h w) else map_of acc w)"
  by (induction ws arbitrary: acc) (simp_all add: update_conv')

lemma getitem_dict_of_map:
  "w \<in> set ws \<Longrightarrow> getitem (dict_of (map (\<lambda>w. (w, h w)) ws)) w = Inr (h w)"
  by (simp add: getitem_def dict_of_def map_of_foldl_update)

lemma getitem_key:
  "w \<in> set (keys d) \<Longrightarrow> getitem d w = Inr (the (map_of d w))"
  by (auto simp: getitem_def keys_def map_of_eq_None_iff split: option.splits)

lemma get_distance_value:
  "get_distance centroid query_vec
     = Inr (sum_list (map (\<lambda>word. the (map_of query_vec word) * get_default centroid word 0)
              (keys query_vec)))"
proof -
  have "mapM (\<lambda>word. bind_res (getitem query_vec word) (\<lambda>q.
           bind_res (getitem (dict_of (map (\<lambda>word. (word, get_default centroid word 0))
                                       (keys query_vec))) word)
             (\<lambda>c. Inr (q * c)))) (keys query_vec)
        = Inr (map (\<lambda>word. the (map_of query_vec word) * get_default centroid word 0)
                 (keys query_vec))"
    by (rule mapM_Inr) (simp add: getitem_key getitem_dict_of_map)
  then show ?thesis by (simp add: get_distance_def)
qed

lemma wf_dict_lookup: "wf_dict d \<Longrightarrow> (w, q) \<in> set d \<Longrightarrow> map_of d w = Some q"
  by (simp add: wf_dict_def keys_def)

lemma wf_dict_entries:
  assumes "wf_dict d"
  shows "map (\<lambda>word. f word (the (map_of d word))) (keys d) = map (\<lambda>(word, q). f word q) d"
  using wf_dict_lookup [OF assms] by (auto simp: keys_def)

text \<open>
  The counts of \<open>get_query_vec\<close> are positive, so its logarithms are defined; the
  weights and the distances are defined whenever the raw weights do not cancel.
\<close>

lemma count_ngrams_step_positive:
  "(\<And>w c. map_of d w = Some c \<Longrightarrow> 0 < c) \<Longrightarrow>
   map_of (foldl (\<lambda>query_vec word.
             AList.update word (get_default query_vec word 0 + 1) query_vec) d ngrams) w = Some c
   \<Longrightarrow> (0::nat) < c"
proof (induction ngrams arbitrary: d)
  case Nil
  then show ?case by simp
next
  case (Cons g ngrams)
  show ?case
  proof (rule Cons.IH [of "AList.update g (get_default d g 0 + 1) d"])
    fix w' c'
    assume "map_of (AList.update g (get_default d g 0 + 1) d) w' = Some c'"
    then show "0 < c'"
      using Cons.prems(1) [of w' c'] by (auto simp: update_conv' split: if_splits)
  next
    show "map_of (foldl (\<lambda>query_vec word.
             AList.update word (get_default query_vec word 0 + 1) query_vec)
           (AList.update g (get_default d g 0 + 1) d) ngrams) w = Some c"
      using Cons.prems(2) by simp
  qed
qed

lemma count_ngrams_positive: "map_of (count_ngrams ngrams) w = Some c \<Longrightarrow> 0 < c"
  unfolding count_ngrams_def by (rule count_ngrams_step_positive [of "[]"]) simp_all

lemma get_query_vec_returns: "\<exists>q. get_query_vec ngrams = Inr q"
proof -
  let ?cn = "count_ngrams ngrams"
  have "mapM (\<lambda>word. bind_res (getitem ?cn word) (\<lambda>c.
               bind_res (py_log10 (real c)) (\<lambda>l. Inr (word, l + 1)))) (keys ?cn)
      = Inr (map (\<lambda>word. (word, log 10 (real (the (map_of ?cn word))) + 1)) (keys ?cn))"
  proof (rule mapM_Inr)
    fix word
    assume k: "word \<in> set (keys ?cn)"
    then have "map_of ?cn word \<noteq> None"
      by (simp add: keys_def map_of_eq_None_iff)
    then obtain c where c: "map_of ?cn word = Some c"
      by blast
    then have "0 < c" by (rule count_ngrams_positive)
    then show "bind_res (getitem ?cn word) (\<lambda>c.
               bind_res (py_log10 (real c)) (\<lambda>l. Inr (word, l + 1)))
        = Inr (word, log 10 (real (the (map_of ?cn word))) + 1)"
      using c by (simp add: getitem_def py_log10_def)
  qed
  then show ?thesis by (simp add: get_query_vec_def Let_def)
qed

lemma get_weights_shape:
  assumes "1 + weight_bigrams cls + weight_trigrams cls \<noteq> 0"
  shows "\<exists>ws. get_weights cls = Inr ws
     \<and> ws = [(1, 1 / (1 + weight_bigrams cls + weight_trigrams cls)),
             (2, weight_bigrams cls / (1 + weight_bigrams cls + weight_trigrams cls)),
             (3, weight_trigrams cls / (1 + weight_bigrams cls + weight_trigrams cls))]"
proof -
  have "1 + (weight_bigrams cls + weight_trigrams cls) \<noteq> 0"
    using assms by (simp add: add.assoc)
  then show ?thesis
    by (simp add: get_weights_def py_div_def dict_of_def Let_def add.assoc)
qed

lemma get_weighted_distance_returns:
  "\<exists>d1 d2 d3. get_distance (centroid 1) (query_vecs 1) = Inr d1
     \<and> get_distance (centroid 2) (query_vecs 2) = Inr d2
     \<and> get_distance (centroid 3) (query_vecs 3) = Inr d3
     \<and> get_weighted_distance query_vecs [(1, w1), (2, w2), (3, w3)] centroid
         = Inr (d1 * w1 + d2 * w2 + d3 * w3)"
  by (simp add: get_weighted_distance_def get_distance_value getitem_def)

lemma get_weights_returned:
  assumes "get_weights cls = Inr ws"
  shows "ws = [(1, 1 / (1 + weight_bigrams cls + weight_trigrams cls)),
             (2, weight_bigrams cls / (1 + weight_bigrams cls + weight_trigrams cls)),
             (3, weight_trigrams cls / (1 + weight_bigrams cls + weight_trigrams cls))]"
proof (cases "1 + weight_bigrams cls + weight_trigrams cls = 0")
  case True
  then have "get_weights cls = Inl ZeroDivisionError"
    by (simp add: get_weights_def py_div_def add.assoc)
  then show ?thesis using assms by simp
next
  case False
  then show ?thesis using get_weights_shape [OF False] assms by auto
qed

lemma get_distance_empty_centroid: "get_distance [] query_vec = Inr 0"
  by (simp add: get_distance_value get_default_def)











subsection \<open>Configuration\<close>

text \<open>
  C9: after \<open>set_params\<close> with a triple, \<open>get_params\<close> returns exactly that triple;
  \<open>get_param_names\<close> has the same length, and its i-th name is the name of the attribute
  whose value is the i-th component of \<open>get_params\<close>.
\<close>

theorem set_params_get_params_roundtrip:
  "get_params (set_params wb wt th cls) = [wb, wt, th]
   \<and> length get_param_names = length (get_params (set_params wb wt th cls))
   \<and> map (getattr (set_params wb wt th cls)) get_param_names
       = map Some (get_params (set_params wb wt th cls))"
  by (simp add: get_params_def set_params_def get_param_names_def getattr_def)

text \<open>
  C8, as amended: when the three raw weights 1.0, the bigram weight and the trigram weight
  do not add up to 0, \<open>get_weights\<close> returns each of them divided by their sum, under the
  keys 1, 2 and 3, and the three returned weights sum to 1.
\<close>

theorem get_weights_normalized:
  assumes "1 + weight_bigrams cls + weight_trigrams cls \<noteq> 0"
  shows "\<exists>ws. get_weights cls = Inr ws
     \<and> ws = [(1, 1 / (1 + weight_bigrams cls + weight_trigrams cls)),
             (2, weight_bigrams cls / (1 + weight_bigrams cls + weight_trigrams cls)),
             (3, weight_trigrams cls / (1 + weight_bigrams cls + weight_trigrams cls))]
     \<and> sum_list (map snd ws) = 1"
proof -
  define total where "total = 1 + weight_bigrams cls + weight_trigrams cls"
  have nz: "total \<noteq> 0" using assms by (simp add: total_def)
  have tot: "1 + (weight_bigrams cls + weight_trigrams cls) = total"
    by (simp add: total_def)
  have ws: "get_weights cls
      = Inr [(1, 1 / total), (2, weight_bigrams cls / total), (3, weight_trigrams cls / total)]"
    using nz by (simp add: get_weights_def py_div_def dict_of_def Let_def tot)
  have "1 / total + (weight_bigrams cls / total + weight_trigrams cls / total) = total / total"
    by (simp add: add_divide_distrib [symmetric] tot)
  then have "1 / total + (weight_bigrams cls / total + weight_trigrams cls / total) = 1"
    using nz by simp
  then show ?thesis using ws by (simp add: total_def)
qed

text \<open>With the weights the class is shipped with, the sum is 7.4655.\<close>

theorem get_weights_normalized_witness:
  "1 + weight_bigrams default_params + weight_trigrams default_params \<noteq> 0
   \<and> get_weights default_params
       = Inr [(1, 10000 / 74655), (2, 20318 / 74655), (3, 44337 / 74655)]"
  using get_weights_normalized [of default_params]
  by (simp add: default_params_def)

text \<open>
  The claim as written, for every pair of weights, fails where the raw weights cancel:
  the division by their sum raises.
\<close>

theorem get_weights_zero_total_counterexample:
  "get_weights \<lparr>weight_bigrams = - 1, weight_trigrams = 0, threshold = 1\<rparr>
     = Inl ZeroDivisionError"
  by (simp add: get_weights_def py_div_def)

subsection \<open>Classification of a message without words\<close>

text \<open>
  C5: whatever the state of the classifier and the configuration, \<open>classify\<close> returns
  \<open>(False, 0.0)\<close> for a message from which no word is extracted.
\<close>

theorem classify_no_words:
  "extract_words pp message = [] \<Longrightarrow> classify pp cls self message = Inr (False, 0)"
  by (simp add: classify_def)

theorem classify_no_words_witness:
  "extract_words blank_tokenizer ''  '' = []
   \<and> classify blank_tokenizer default_params new_classifier ''  '' = Inr (False, 0)"
  using classify_no_words [of blank_tokenizer "''  ''" default_params new_classifier]
  by (simp add: blank_tokenizer_def)

subsection \<open>The tf-idf engine and the centroids\<close>

text \<open>
  C1: the docstring of \<open>build_inv_index\<close> promises
  \<open>inv_index[word][i] = number of occurrences of word in documents[i]\<close>. For the single
  document \<open>['a', 'a']\<close> the index should hold the count 2 for 'a' in document 0; the
  code stores an empty dict for 'a', and \<open>compute_tfidf\<close> then raises when it takes the
  logarithm of the document frequency 0.
\<close>

theorem build_inv_index_records_no_count:
  "build_inv_index [[''a'', ''a'']] = [(''a'', [])]
   \<and> compute_tfidf [[''a'', ''a'']] = Inl ValueError"
  by (simp add: compute_tfidf_def tfidf_word_def build_inv_index_def getitem_def py_log10_def)

text \<open>
  C6: for the two documents \<open>['a']\<close> and \<open>['a']\<close> the term 'a' occurs in all N = 2
  documents and its weight should be 0 in both; the code computes no weight, it raises.
\<close>

theorem compute_tfidf_common_term_raises:
  "compute_tfidf [[''a''], [''a'']] = Inl ValueError"
  by (simp add: compute_tfidf_def tfidf_word_def build_inv_index_def getitem_def py_log10_def)

text \<open>
  C2: for the two documents \<open>['a']\<close> and \<open>['b']\<close> the centroid should hold, for each
  term, the sum of its weights divided by 2; \<open>get_centroid\<close> raises instead. Moreover,
  on a table that does hold weights, here 0.5 and 0.25 for 'a' in the documents 0 and 1, the
  returned expression adds up the document indices 0 and 1, not the weights: it yields
  (0 + 1) / 2 where the average of the weights is 0.375.
\<close>

theorem get_centroid_not_average:
  "get_centroid {''a'', ''b''} [[''a''], [''b'']] = Inl ValueError
   \<and> average_rows [(''a'', [(0, 1 / 2), (1, 1 / 4)])] 2 = Inr [(''a'', 1 / 2)]"
  by (simp add: get_centroid_cases average_rows_def getitem_def py_div_def dict_of_def)

text \<open>
  C3, as amended: for a class with no document at an order, building the centroid raises
  \<open>ValueError\<close>, the logarithm of the document count 0. The distance of any query
  vector to an empty centroid is 0. With the weights that \<open>get_weights\<close> returns, the
  weighted distance of \<open>classify\<close> is the sum over the orders 1, 2, 3 of the distance
  at that order times its weight, and the distance of an order whose centroid is empty is
  0: that order contributes 0 to the weighted distance.
\<close>

theorem empty_class_centroid_raises:
  "get_centroid vocabulary [] = Inl ValueError
   \<and> get_distance [] query_vec = Inr 0
   \<and> (get_weights cls = Inr weights \<longrightarrow>
        (\<exists>d1 d2 d3 w1 w2 w3.
            get_distance (centroid 1) (query_vecs 1) = Inr d1
          \<and> get_distance (centroid 2) (query_vecs 2) = Inr d2
          \<and> get_distance (centroid 3) (query_vecs 3) = Inr d3
          \<and> getitem weights 1 = Inr w1
          \<and> getitem weights 2 = Inr w2
          \<and> getitem weights 3 = Inr w3
          \<and> get_weighted_distance query_vecs weights centroid
               = Inr (d1 * w1 + d2 * w2 + d3 * w3)
          \<and> (centroid 1 = [] \<longrightarrow> d1 = 0)
          \<and> (centroid 2 = [] \<longrightarrow> d2 = 0)
          \<and> (centroid 3 = [] \<longrightarrow> d3 = 0)))"
proof (intro conjI impI)
  show "get_centroid vocabulary [] = Inl ValueError"
    by (simp add: get_centroid_cases)
  show "get_distance [] query_vec = Inr 0"
    by (rule get_distance_empty_centroid)
next
  assume "get_weights cls = Inr weights"
  then obtain w1 w2 w3 where ws: "weights = [(1, w1), (2, w2), (3, w3)]"
    using get_weights_returned by blast
  obtain d1 d2 d3 where d: "get_distance (centroid 1) (query_vecs 1) = Inr d1"
      "get_distance (centroid 2) (query_vecs 2) = Inr d2"
      "get_distance (centroid 3) (query_vecs 3) = Inr d3"
    and sum: "get_weighted_distance query_vecs [(1, w1), (2, w2), (3, w3)] centroid
         = Inr (d1 * w1 + d2 * w2 + d3 * w3)"
    using get_weighted_distance_returns [of centroid query_vecs w1 w2 w3] by blast
  have items: "getitem weights 1 = Inr w1" "getitem weights 2 = Inr w2"
      "getitem weights 3 = Inr w3"
    by (simp_all add: ws getitem_def)
  have zero: "centroid n = [] \<Longrightarrow> get_distance (centroid n) (query_vecs n) = Inr dn \<Longrightarrow> dn = 0"
    for n dn
    using get_distance_empty_centroid [of "query_vecs n"] by simp
  show "\<exists>d1 d2 d3 w1 w2 w3.
            get_distance (centroid 1) (query_vecs 1) = Inr d1
          \<and> get_distance (centroid 2) (query_vecs 2) = Inr d2
          \<and> get_distance (centroid 3) (query_vecs 3) = Inr d3
          \<and> getitem weights 1 = Inr w1
          \<and> getitem weights 2 = Inr w2
          \<and> getitem weights 3 = Inr w3
          \<and> get_weighted_distance query_vecs weights centroid
               = Inr (d1 * w1 + d2 * w2 + d3 * w3)
          \<and> (centroid 1 = [] \<longrightarrow> d1 = 0)
          \<and> (centroid 2 = [] \<longrightarrow> d2 = 0)
          \<and> (centroid 3 = [] \<longrightarrow> d3 = 0)"
    using d sum items zero [OF _ d(1)] zero [OF _ d(2)] zero [OF _ d(3)]
    unfolding ws by blast
qed

theorem empty_class_centroid_raises_witness:
  "get_weights default_params
       = Inr [(1, 10000 / 74655), (2, 20318 / 74655), (3, 44337 / 74655)]
   \<and> get_distance [(''good'', 2)] [(''good'', 1)] = Inr 2
   \<and> get_weighted_distance (\<lambda>n. [(''good'', 1)])
         [(1, 10000 / 74655), (2, 20318 / 74655), (3, 44337 / 74655)]
         ((\<lambda>n. [])(1 := [(''good'', 2)])) = Inr (20000 / 74655)"
proof -
  have ws: "get_weights default_params
       = Inr [(1, 10000 / 74655), (2, 20318 / 74655), (3, 44337 / 74655)]"
    by (simp add: get_weights_def default_params_def py_div_def dict_of_def)
  have d1: "get_distance [(''good'', 2)] [(''good'', 1 :: real)] = Inr 2"
    by (simp add: get_distance_def getitem_def get_default_def dict_of_def)
  from empty_class_centroid_raises [of "{}" "[]" default_params
      "[(1, 10000 / 74655), (2, 20318 / 74655), (3, 44337 / 74655)]"
      "(\<lambda>n. [])(1 := [(''good'', 2)])" "\<lambda>n. [(''good'', 1)]"] ws
  obtain d1' d2 d3 w1 w2 w3 where
      "get_distance [(''good'', 2)] [(''good'', 1 :: real)] = Inr d1'"
      "getitem [(1 :: nat, 10000 / 74655 :: real), (2, 20318 / 74655), (3, 44337 / 74655)] 1
         = Inr w1"
      "getitem [(1 :: nat, 10000 / 74655 :: real), (2, 20318 / 74655), (3, 44337 / 74655)] 2
         = Inr w2"
      "getitem [(1 :: nat, 10000 / 74655 :: real), (2, 20318 / 74655), (3, 44337 / 74655)] 3
         = Inr w3"
      "get_weighted_distance (\<lambda>n. [(''good'', 1)])
         [(1, 10000 / 74655), (2, 20318 / 74655), (3, 44337 / 74655)]
         ((\<lambda>n. [])(1 := [(''good'', 2)])) = Inr (d1' * w1 + d2 * w2 + d3 * w3)"
      "d2 = 0" "d3 = 0"
    by auto
  then show ?thesis using ws d1 by (simp add: getitem_def)
qed

text \<open>The claim as written, an empty centroid without raising, fails on the empty list.\<close>

theorem get_centroid_no_documents_counterexample:
  "get_centroid ({} :: string set) [] = Inl ValueError"
  by (simp add: get_centroid_cases)

subsection \<open>The distance\<close>

text \<open>
  C7: for a query vector (a dict, so with distinct keys) and any centroid, \<open>get_distance\<close>
  returns the sum, over the terms of the query vector, of the query value times
  \<open>centroid.get(term, 0.0)\<close>. It is a raw inner product: scaling the query vector
  scales the result by the same factor, which no division by a norm would allow, and an
  entry of the centroid under a term that the query lacks does not change the result.
\<close>

theorem get_distance_raw_inner_product:
  assumes "wf_dict query_vec"
  shows "get_distance centroid query_vec
           = Inr (sum_list (map (\<lambda>(word, q). q * get_default centroid word 0) query_vec))
       \<and> (\<forall>k. get_distance centroid (map (\<lambda>(word, q). (word, k * q)) query_vec)
                = Inr (k * sum_list (map (\<lambda>(word, q). q * get_default centroid word 0)
                                     query_vec)))
       \<and> (\<forall>word v. word \<notin> set (keys query_vec) \<longrightarrow>
             get_distance (AList.update word v centroid) query_vec
               = get_distance centroid query_vec)"
proof (intro conjI allI impI)
  show dist: "get_distance centroid query_vec
           = Inr (sum_list (map (\<lambda>(word, q). q * get_default centroid word 0) query_vec))"
    for centroid :: "('a, real) dict"
    using wf_dict_entries [OF assms, of "\<lambda>word q. q * get_default centroid word 0"]
    by (simp add: get_distance_value)
next
  fix k
  let ?scaled = "map (\<lambda>(word, q). (word, k * q)) query_vec"
  have "keys ?scaled = keys query_vec"
    by (simp add: keys_def case_prod_unfold comp_def)
  then have wf: "wf_dict ?scaled" using assms by (simp add: wf_dict_def)
  have "sum_list (map (\<lambda>(word, q). q * get_default centroid word 0) ?scaled)
      = k * sum_list (map (\<lambda>(word, q). q * get_default centroid word 0) query_vec)"
    by (simp add: sum_list_const_mult [symmetric] comp_def case_prod_unfold mult.assoc)
  then show "get_distance centroid ?scaled
      = Inr (k * sum_list (map (\<lambda>(word, q). q * get_default centroid word 0) query_vec))"
    using wf_dict_entries [OF wf, of "\<lambda>word q. q * get_default centroid word 0"]
    by (simp add: get_distance_value)
next
  fix word v
  assume "word \<notin> set (keys query_vec)"
  then have "\<And>w. w \<in> set (keys query_vec) \<Longrightarrow>
      get_default (AList.update word v centroid) w 0 = get_default centroid w 0"
    by (auto simp: get_default_def update_conv')
  then show "get_distance (AList.update word v centroid) query_vec
      = get_distance centroid query_vec"
    by (simp add: get_distance_value cong: map_cong)
qed

theorem get_distance_raw_inner_product_witness:
  "wf_dict [(''a'', 2 :: real), (''b'', 3)]
   \<and> get_distance [(''a'', 5), (''c'', 7)] [(''a'', 2), (''b'', 3)] = Inr 10"
  using get_distance_raw_inner_product [of "[(''a'', 2), (''b'', 3)]" "[(''a'', 5), (''c'', 7)]"]
  by (simp add: wf_dict_def get_default_def)

subsection \<open>Classification of a message with words\<close>

text \<open>
  C4, as amended: for a message with at least one word the three query vectors are always
  built. If the raw weights 1.0, bigram weight and trigram weight add up to 0,
  \<open>classify\<close> raises \<open>ZeroDivisionError\<close>. Otherwise both weighted distances are
  computed, and with diff = (positive distance + \<epsilon>) / (negative distance + \<epsilon>),
  \<epsilon> = 1.0e-6, \<open>classify\<close> raises \<open>ZeroDivisionError\<close> when the negative distance
  + \<epsilon> is 0, raises \<open>ValueError\<close> when diff is not positive, and in every other
  case returns the pair (diff > threshold, natural logarithm of diff).
\<close>

theorem classify_diff:
  assumes "extract_words pp message \<noteq> []"
  shows "\<exists>q1 q2 q3 ws pos neg.
      get_query_vec (get_ngrams pp 1 (extract_words pp message)) = Inr q1
    \<and> get_query_vec (get_ngrams pp 2 (extract_words pp message)) = Inr q2
    \<and> get_query_vec (get_ngrams pp 3 (extract_words pp message)) = Inr q3
    \<and> (if 1 + weight_bigrams cls + weight_trigrams cls = 0
       then classify pp cls self message = Inl ZeroDivisionError
       else get_weights cls = Inr ws
          \<and> get_weighted_distance (\<lambda>n. if n = 1 then q1 else if n = 2 then q2 else q3) ws
               (pos_centroid self) = Inr pos
          \<and> get_weighted_distance (\<lambda>n. if n = 1 then q1 else if n = 2 then q2 else q3) ws
               (neg_centroid self) = Inr neg
          \<and> classify pp cls self message =
             (if neg + EPSILON = 0 then Inl ZeroDivisionError
              else if (pos + EPSILON) / (neg + EPSILON) \<le> 0 then Inl ValueError
              else Inr ((pos + EPSILON) / (neg + EPSILON) > threshold cls,
                        ln ((pos + EPSILON) / (neg + EPSILON)))))"
proof -
  let ?words = "extract_words pp message"
  obtain q1 where q1: "get_query_vec (get_ngrams pp 1 ?words) = Inr q1"
    using get_query_vec_returns by blast
  obtain q2 where q2: "get_query_vec (get_ngrams pp 2 ?words) = Inr q2"
    using get_query_vec_returns by blast
  obtain q3 where q3: "get_query_vec (get_ngrams pp 3 ?words) = Inr q3"
    using get_query_vec_returns by blast
  let ?qv = "\<lambda>n::nat. if n = 1 then q1 else if n = 2 then q2 else q3"
  show ?thesis
  proof (cases "1 + weight_bigrams cls + weight_trigrams cls = 0")
    case True
    then have "get_weights cls = Inl ZeroDivisionError"
      by (simp add: get_weights_def py_div_def add.assoc)
    then have "classify pp cls self message = Inl ZeroDivisionError"
      using assms q1 q2 q3 by (simp add: classify_def)
    then show ?thesis using True q1 q2 q3 by simp
  next
    case False
    then obtain ws where ws: "get_weights cls = Inr ws"
      and shape: "ws = [(1, 1 / (1 + weight_bigrams cls + weight_trigrams cls)),
             (2, weight_bigrams cls / (1 + weight_bigrams cls + weight_trigrams cls)),
             (3, weight_trigrams cls / (1 + weight_bigrams cls + weight_trigrams cls))]"
      using get_weights_shape by blast
    obtain pos where pos: "get_weighted_distance ?qv ws (pos_centroid self) = Inr pos"
      using get_weighted_distance_returns [of "pos_centroid self" ?qv] unfolding shape by blast
    obtain neg where neg: "get_weighted_distance ?qv ws (neg_centroid self) = Inr neg"
      using get_weighted_distance_returns [of "neg_centroid self" ?qv] unfolding shape by blast
    have "classify pp cls self message =
             (if neg + EPSILON = 0 then Inl ZeroDivisionError
              else if (pos + EPSILON) / (neg + EPSILON) \<le> 0 then Inl ValueError
              else Inr ((pos + EPSILON) / (neg + EPSILON) > threshold cls,
                        ln ((pos + EPSILON) / (neg + EPSILON))))"
      using assms q1 q2 q3 ws pos neg
      by (simp add: classify_def py_div_def py_log_def)
    then show ?thesis using False q1 q2 q3 ws pos neg by auto
  qed
qed

theorem classify_diff_witness:
  "extract_words blank_tokenizer ''good'' \<noteq> []
   \<and> classify blank_tokenizer default_params new_classifier ''good'' = Inr (False, 0)"
  using classify_diff [of blank_tokenizer "''good''" default_params new_classifier]
  by (simp add: blank_tokenizer_def classify_def ngrams_of_def get_query_vec_def
      count_ngrams_def get_default_def getitem_def py_log10_def dict_of_def
      get_weights_def default_params_def py_div_def get_weighted_distance_def
      get_distance_def new_classifier_def EPSILON_def py_log_def)

text \<open>
  The claim as written, a pair for every message with a word, fails where the configured
  weights cancel: no pair is returned.
\<close>

theorem classify_raises_counterexample:
  "extract_words blank_tokenizer ''good'' \<noteq> []
   \<and> classify blank_tokenizer \<lparr>weight_bigrams = - 1, weight_trigrams = 0, threshold = 1\<rparr>
        new_classifier ''good'' = Inl ZeroDivisionError"
  by (simp add: blank_tokenizer_def classify_def ngrams_of_def get_query_vec_def
      count_ngrams_def get_default_def getitem_def py_log10_def dict_of_def
      get_weights_def py_div_def)

subsection \<open>Training\<close>

text \<open>
  The denominator N of \<open>get_centroid\<close> never reaches a result: the table it would
  average is empty whenever \<open>compute_tfidf\<close> returns, so any other denominator gives
  the same outcome.
\<close>

lemma get_centroid_any_denominator:
  "get_centroid vocabulary documents
     = bind_res (compute_tfidf documents) (\<lambda>(tfidf, tfidf_l2norm). average_rows tfidf M)"
  by (simp add: get_centroid_def compute_tfidf_cases average_rows_def)




end
